theory Spec2Isabelle
  imports Complex_Main
begin

section \<open>Values, errors and tables\<close>

text \<open>
  The pipeline of \<^verbatim>\<open>pipeline/inference.py\<close> reads COCO annotation documents, builds
  tables with pandas and computes metrics with numpy. The embedding below follows the
  three functions that transform data: \<^verbatim>\<open>parse_coco_split\<close>,
  \<^verbatim>\<open>build_gt_for_split\<close> and \<^verbatim>\<open>evaluate_predictions\<close>.

  Modelling decisions, fixed here once:
  \<^item> a JSON number and a finite float are a \<^typ>\<open>real\<close>; float rounding is not modelled;
  \<^item> a cell of the annotation tables that may hold NaN (or Python's \<^verbatim>\<open>None\<close>) is a
    \<^typ>\<open>real option\<close>, with \<^term>\<open>None\<close> for NaN;
  \<^item> a value computed by the evaluator is a \<open>float64\<close>: a real, an infinity or NaN;
  \<^item> a table is the list of its rows, in row order; its columns are the fields of the
    row record;
  \<^item> an exception is a value \<open>Inl e\<close> of the result type \<open>error + 'a\<close>.
\<close>

datatype error = KeyError | IndexError | ValueError | EmptyDataError

text \<open>An entry of a JSON object: the key is missing, or it holds \<^verbatim>\<open>null\<close>, or a value.\<close>

datatype 'a entry = Absent | Null | Val 'a

text \<open>\<^verbatim>\<open>d.get(key, default)\<close>: the default only replaces a missing key.\<close>

fun get_or :: "'a entry \<Rightarrow> 'a option \<Rightarrow> 'a option" where
  "get_or Absent d = d"
| "get_or Null d = None"
| "get_or (Val v) d = Some v"

text \<open>\<^verbatim>\<open>d.get(key)\<close>\<close>

definition get :: "'a entry \<Rightarrow> 'a option" where
  "get e = get_or e None"

section \<open>The annotation document\<close>

record image =
  img_id :: int
  img_file_name :: string
  img_width :: int
  img_height :: int

record category =
  cat_id :: int
  cat_name :: string

record attributes =
  attr_centroid_lat :: "real entry"
  attr_centroid_lon :: "real entry"
  attr_area_m2 :: "real entry"

record annotation =
  ann_image_id :: int
  ann_category_id :: int
  ann_bbox :: "real list"
  ann_area :: "real entry"
  ann_attributes :: "attributes entry"

record coco =
  images :: "image list"
  categories :: "category list"
  annotations :: "annotation list"

text \<open>\<^verbatim>\<open>ann.get("attributes", {}) or {}\<close>: a missing, null or empty map is the empty map.\<close>

definition no_attributes :: attributes where
  "no_attributes =
     \<lparr>attr_centroid_lat = Absent, attr_centroid_lon = Absent, attr_area_m2 = Absent\<rparr>"

fun attrs_of :: "annotation \<Rightarrow> attributes" where
  "attrs_of ann = (case ann_attributes ann of Val a \<Rightarrow> a | _ \<Rightarrow> no_attributes)"

section \<open>Object-level rows: \<^verbatim>\<open>parse_coco_split\<close>\<close>

record keyed =
  split :: string
  file_name :: string

record image_keyed = keyed +
  image_id :: int
  img_width_px :: int
  img_height_px :: int

record object_row = image_keyed +
  category_id :: int
  category_name :: string
  x_min_px :: real
  y_min_px :: real
  width_px :: real
  height_px :: real
  x_max_px :: real
  y_max_px :: real
  area_px :: "real option"
  centroid_lat :: "real option"
  centroid_lon :: "real option"
  area_m2 :: "real option"

text \<open>Decimal rendering of an integer, as an f-string prints it.\<close>

function str_nat :: "nat \<Rightarrow> string" where
  "str_nat n =
     (if n < 10 then [char_of (48 + n)]
      else str_nat (n div 10) @ [char_of (48 + n mod 10)])"
  by pat_completeness auto
termination
  by (relation "measure (\<lambda>n. n)") auto

declare str_nat.simps [simp del]

definition str_int :: "int \<Rightarrow> string" where
  "str_int i = (if i < 0 then CHR ''-'' # str_nat (nat (- i)) else str_nat (nat i))"

text \<open>
  The two dictionaries built by comprehension: a later entry with the same id replaces an
  earlier one, so the association list is reversed before \<^const>\<open>map_of\<close> reads it.
\<close>

definition images_by_id :: "image list \<Rightarrow> (int \<rightharpoonup> image)" where
  "images_by_id imgs = map_of (rev (map (\<lambda>img. (img_id img, img)) imgs))"

definition cats_by_id :: "category list \<Rightarrow> (int \<rightharpoonup> string)" where
  "cats_by_id cats = map_of (rev (map (\<lambda>cat. (cat_id cat, cat_name cat)) cats))"

text \<open>
  The body of the loop over the annotations. In source order:
  \<^item> \<^verbatim>\<open>ann.get("area", bbox[2] * bbox[3])\<close> evaluates its default first, so a box with
    fewer than four numbers raises \<^verbatim>\<open>IndexError\<close>;
  \<^item> \<^verbatim>\<open>images_by_id[image_id]\<close> raises \<^verbatim>\<open>KeyError\<close> on an unknown image;
  \<^item> \<^verbatim>\<open>x_min, y_min, w, h = bbox\<close> raises \<^verbatim>\<open>ValueError\<close> on more than four numbers.
\<close>

definition parse_annotation ::
  "string \<Rightarrow> (int \<rightharpoonup> image) \<Rightarrow> (int \<rightharpoonup> string) \<Rightarrow> annotation \<Rightarrow> error + object_row" where
  "parse_annotation split_name imgs cats ann =
     (let bbox = ann_bbox ann in
      if length bbox < 4 then Inl IndexError
      else
        let area = get_or (ann_area ann) (Some (bbox ! 2 * bbox ! 3));
            attrs = attrs_of ann
        in case imgs (ann_image_id ann) of
             None \<Rightarrow> Inl KeyError
           | Some img_info \<Rightarrow>
               let cat = (case cats (ann_category_id ann) of
                            Some n \<Rightarrow> n
                          | None \<Rightarrow> ''class_'' @ str_int (ann_category_id ann))
               in if length bbox \<noteq> 4 then Inl ValueError
                  else Inr \<lparr>split = split_name,
                            file_name = img_file_name img_info,
                            image_id = ann_image_id ann,
                            img_width_px = img_width img_info,
                            img_height_px = img_height img_info,
                            category_id = ann_category_id ann,
                            category_name = cat,
                            x_min_px = bbox ! 0,
                            y_min_px = bbox ! 1,
                            width_px = bbox ! 2,
                            height_px = bbox ! 3,
                            x_max_px = bbox ! 0 + bbox ! 2,
                            y_max_px = bbox ! 1 + bbox ! 3,
                            area_px = area,
                            centroid_lat = get (attr_centroid_lat attrs),
                            centroid_lon = get (attr_centroid_lon attrs),
                            area_m2 = get (attr_area_m2 attrs)\<rparr>)"

text \<open>The loop: rows are appended in order and the first exception ends the call.\<close>

fun parse_annotations ::
  "string \<Rightarrow> (int \<rightharpoonup> image) \<Rightarrow> (int \<rightharpoonup> string) \<Rightarrow> annotation list \<Rightarrow> error + object_row list" where
  "parse_annotations split_name imgs cats [] = Inr []"
| "parse_annotations split_name imgs cats (ann # anns) =
     (case parse_annotation split_name imgs cats ann of
        Inl e \<Rightarrow> Inl e
      | Inr row \<Rightarrow>
          (case parse_annotations split_name imgs cats anns of
             Inl e \<Rightarrow> Inl e
           | Inr rows \<Rightarrow> Inr (row # rows)))"

text \<open>
  The annotation file of a split is \<^term>\<open>None\<close> when it does not exist; the function
  then returns the empty table.
\<close>

definition parse_coco_split :: "string \<Rightarrow> coco option \<Rightarrow> error + object_row list" where
  "parse_coco_split split_name src =
     (case src of
        None \<Rightarrow> Inr []
      | Some doc \<Rightarrow>
          parse_annotations split_name (images_by_id (images doc))
            (cats_by_id (categories doc)) (annotations doc))"

section \<open>Image-level ground truth: \<^verbatim>\<open>build_gt_for_split\<close>\<close>

record gt_row = image_keyed +
  num_boxes_gt :: int
  area_px_gt :: real
  area_m2_gt :: real
  has_solar_gt :: bool

text \<open>The cells that are not NaN, and pandas' \<^verbatim>\<open>sum\<close>, which skips NaN.\<close>

definition dropna :: "real option list \<Rightarrow> real list" where
  "dropna cells = List.map_filter (\<lambda>c. c) cells"

definition sum_skipna :: "real option list \<Rightarrow> real" where
  "sum_skipna cells = sum_list (dropna cells)"

text \<open>
  \<^verbatim>\<open>rows_ann\<close>: one entry per annotation, holding \<^verbatim>\<open>image_id\<close>,
  \<^verbatim>\<open>ann.get("area", 0.0)\<close> and \<^verbatim>\<open>attrs.get("area_m2", 0.0)\<close>.
\<close>

definition rows_ann :: "annotation list \<Rightarrow> (int \<times> real option \<times> real option) list" where
  "rows_ann anns =
     map (\<lambda>ann. (ann_image_id ann,
                  get_or (ann_area ann) (Some 0),
                  get_or (attr_area_m2 (attrs_of ann)) (Some 0))) anns"

text \<open>
  \<^verbatim>\<open>df_ann.groupby("image_id").agg(size, sum, sum)\<close>: one entry per distinct image id,
  in ascending order of the id.
\<close>

definition agg ::
  "(int \<times> real option \<times> real option) list \<Rightarrow> (int \<times> (int \<times> real \<times> real)) list" where
  "agg df_ann =
     map (\<lambda>k. let grp = filter (\<lambda>r. fst r = k) df_ann
               in (k, (int (length grp),
                       sum_skipna (map (\<lambda>r. fst (snd r)) grp),
                       sum_skipna (map (\<lambda>r. snd (snd r)) grp))))
         (sort (remdups (map fst df_ann)))"

text \<open>
  One row of the left merge of the images with \<^const>\<open>agg\<close> on \<^verbatim>\<open>image_id\<close>, after
  the three \<^verbatim>\<open>fillna\<close> calls: an image without a group gets 0, 0.0 and 0.0.
\<close>

definition merge_left ::
  "string \<Rightarrow> (int \<rightharpoonup> (int \<times> real \<times> real)) \<Rightarrow> image \<Rightarrow> gt_row" where
  "merge_left split_name groups img =
     (let (n, a, m) = (case groups (img_id img) of
                         None \<Rightarrow> (0, 0, 0)
                       | Some t \<Rightarrow> t)
      in \<lparr>split = split_name,
          file_name = img_file_name img,
          image_id = img_id img,
          img_width_px = img_width img,
          img_height_px = img_height img,
          num_boxes_gt = n,
          area_px_gt = a,
          area_m2_gt = m,
          has_solar_gt = (n > 0)\<rparr>)"

text \<open>The row of an image when the document has no annotation at all.\<close>

definition negative_row :: "string \<Rightarrow> image \<Rightarrow> gt_row" where
  "negative_row split_name img =
     \<lparr>split = split_name,
      file_name = img_file_name img,
      image_id = img_id img,
      img_width_px = img_width img,
      img_height_px = img_height img,
      num_boxes_gt = 0,
      area_px_gt = 0,
      area_m2_gt = 0,
      has_solar_gt = False\<rparr>"

text \<open>
  With annotations but no image, the frame of the images has no \<^verbatim>\<open>image_id\<close> column
  and \<^verbatim>\<open>pd.merge\<close> raises \<^verbatim>\<open>KeyError\<close>.
\<close>

definition build_gt_for_split :: "string \<Rightarrow> coco option \<Rightarrow> error + gt_row list" where
  "build_gt_for_split split_name src =
     (case src of
        None \<Rightarrow> Inr []
      | Some doc \<Rightarrow>
          let imgs = images doc; anns = annotations doc
          in if anns = [] then Inr (map (negative_row split_name) imgs)
             else if imgs = [] then Inl KeyError
             else Inr (map (merge_left split_name (map_of (agg (rows_ann anns)))) imgs))"

section \<open>The evaluator: \<^verbatim>\<open>evaluate_predictions\<close>\<close>

text \<open>
  The values of numpy's float arithmetic: a finite number, an infinity or NaN. A zero
  divisor does not raise: \<open>x / 0\<close> is an infinity with the sign of \<open>x\<close>, and \<open>0 / 0\<close>
  is NaN.
\<close>

datatype float64 = Fin real | PosInf | NegInf | NaN

definition fdiv :: "real \<Rightarrow> real \<Rightarrow> float64" where
  "fdiv a b =
     (if b = 0 then (if a = 0 then NaN else if a > 0 then PosInf else NegInf)
      else Fin (a / b))"

fun div64 :: "float64 \<Rightarrow> float64 \<Rightarrow> float64" where
  "div64 NaN y = NaN"
| "div64 x NaN = NaN"
| "div64 (Fin a) (Fin b) = fdiv a b"
| "div64 (Fin a) y = Fin 0"
| "div64 PosInf (Fin b) = (if b < 0 then NegInf else PosInf)"
| "div64 NegInf (Fin b) = (if b < 0 then PosInf else NegInf)"
| "div64 x y = NaN"

fun mul64 :: "float64 \<Rightarrow> float64 \<Rightarrow> float64" where
  "mul64 NaN y = NaN"
| "mul64 x NaN = NaN"
| "mul64 (Fin a) (Fin b) = Fin (a * b)"
| "mul64 (Fin a) PosInf = (if a > 0 then PosInf else if a < 0 then NegInf else NaN)"
| "mul64 (Fin a) NegInf = (if a > 0 then NegInf else if a < 0 then PosInf else NaN)"
| "mul64 PosInf (Fin b) = (if b > 0 then PosInf else if b < 0 then NegInf else NaN)"
| "mul64 NegInf (Fin b) = (if b > 0 then NegInf else if b < 0 then PosInf else NaN)"
| "mul64 PosInf PosInf = PosInf"
| "mul64 NegInf NegInf = PosInf"
| "mul64 x y = NegInf"

fun add64 :: "float64 \<Rightarrow> float64 \<Rightarrow> float64" where
  "add64 NaN y = NaN"
| "add64 x NaN = NaN"
| "add64 (Fin a) (Fin b) = Fin (a + b)"
| "add64 PosInf NegInf = NaN"
| "add64 NegInf PosInf = NaN"
| "add64 PosInf y = PosInf"
| "add64 x PosInf = PosInf"
| "add64 x y = NegInf"

fun sqrt64 :: "float64 \<Rightarrow> float64" where
  "sqrt64 (Fin a) = (if a < 0 then NaN else Fin (sqrt a))"
| "sqrt64 PosInf = PosInf"
| "sqrt64 x = NaN"

record pred_row = keyed +
  image_path :: string
  num_preds :: int
  has_solar_pred :: bool
  max_conf_pred :: real
  area_px_pred :: real

type_synonym merged_row = "gt_row \<times> pred_row"

record metrics =
  tp :: int
  fp :: int
  fn :: int
  tn :: int
  accuracy :: float64
  precision :: float64
  recall :: float64
  f1_score :: float64
  mae_px2 :: float64
  rmse_px2 :: float64
  mape_percent :: float64
  num_images_area_eval :: int
  total_images :: int

text \<open>The join key \<^verbatim>\<open>on=["split", "file_name"]\<close>.\<close>

definition key :: "'a keyed_scheme \<Rightarrow> string \<times> string" where
  "key r = (split r, file_name r)"

text \<open>
  \<^verbatim>\<open>pd.merge(df_gt, df_pred, on=[...], how="inner")\<close>: every pair of a left and a right
  row with equal keys, in the order of the left rows.
\<close>

definition merge_inner :: "gt_row list \<Rightarrow> pred_row list \<Rightarrow> merged_row list" where
  "merge_inner df_gt df_pred =
     concat (map (\<lambda>g. map (\<lambda>p. (g, p)) (filter (\<lambda>p. key p = key g) df_pred)) df_gt)"

text \<open>
  A cell of the 2x2 cross of the two flags:
  \<^verbatim>\<open>((df["has_solar_gt"] == a) & (df["has_solar_pred"] == b)).sum()\<close>.
\<close>

definition confusion :: "bool \<Rightarrow> bool \<Rightarrow> merged_row list \<Rightarrow> int" where
  "confusion a b df_merged =
     int (length (filter (\<lambda>r. has_solar_gt (fst r) = a \<and> has_solar_pred (snd r) = b) df_merged))"

definition eps :: real where
  "eps = 1 / 10 ^ 9"

text \<open>
  \<^verbatim>\<open>precision = tp / (tp + fp + eps)\<close> and the three lines after it; the counts are
  integers, so the first divisions are divisions of finite numbers.
\<close>

definition precision_of :: "int \<Rightarrow> int \<Rightarrow> float64" where
  "precision_of n_tp n_fp = fdiv (of_int n_tp) (of_int n_tp + of_int n_fp + eps)"

definition recall_of :: "int \<Rightarrow> int \<Rightarrow> float64" where
  "recall_of n_tp n_fn = fdiv (of_int n_tp) (of_int n_tp + of_int n_fn + eps)"

definition f1_of :: "float64 \<Rightarrow> float64 \<Rightarrow> float64" where
  "f1_of p r = div64 (mul64 (mul64 (Fin 2) p) r) (add64 (add64 p r) (Fin eps))"

definition accuracy_of :: "int \<Rightarrow> int \<Rightarrow> int \<Rightarrow> int \<Rightarrow> float64" where
  "accuracy_of n_tp n_tn n_fp n_fn =
     fdiv (of_int n_tp + of_int n_tn)
          (of_int n_tp + of_int n_tn + of_int n_fp + of_int n_fn + eps)"

text \<open>The filter of the area metrics.\<close>

definition mask_row :: "merged_row \<Rightarrow> bool" where
  "mask_row r = (area_px_gt (fst r) > 0 \<or> area_px_pred (snd r) > 0)"

definition abs_err :: "merged_row \<Rightarrow> real" where
  "abs_err r = \<bar>area_px_pred (snd r) - area_px_gt (fst r)\<bar>"

definition sq_err :: "merged_row \<Rightarrow> real" where
  "sq_err r = (area_px_pred (snd r) - area_px_gt (fst r)) ^ 2"

text \<open>
  pandas' \<^verbatim>\<open>mean\<close>: the NaN cells are skipped, the mean of nothing is NaN, and the other
  cells are summed and divided by their number. An infinite cell is not skipped.
\<close>

definition sum64 :: "float64 list \<Rightarrow> float64" where
  "sum64 cells = foldr add64 cells (Fin 0)"

definition mean_skipna :: "float64 list \<Rightarrow> float64" where
  "mean_skipna cells =
     (let vs = filter (\<lambda>c. c \<noteq> NaN) cells
      in if vs = [] then NaN else div64 (sum64 vs) (Fin (real (length vs))))"

text \<open>\<^verbatim>\<open>area_gt.replace(0, np.nan)\<close>, and \<^verbatim>\<open>rel_err = abs_err / (...)\<close>.\<close>

definition replace_zero :: "real \<Rightarrow> float64" where
  "replace_zero g = (if g = 0 then NaN else Fin g)"

definition rel_err :: "merged_row \<Rightarrow> float64" where
  "rel_err r = div64 (Fin (abs_err r)) (replace_zero (area_px_gt (fst r)))"

definition mae_of :: "merged_row list \<Rightarrow> float64" where
  "mae_of df_merged = mean_skipna (map (\<lambda>r. Fin (abs_err r)) (filter mask_row df_merged))"

definition rmse_of :: "merged_row list \<Rightarrow> float64" where
  "rmse_of df_merged =
     sqrt64 (mean_skipna (map (\<lambda>r. Fin (sq_err r)) (filter mask_row df_merged)))"

definition mape_of :: "merged_row list \<Rightarrow> float64" where
  "mape_of df_merged =
     mean_skipna (map (\<lambda>r. mul64 (rel_err r) (Fin 100)) (filter mask_row df_merged))"

definition compute_metrics :: "merged_row list \<Rightarrow> metrics" where
  "compute_metrics df_merged =
     (let n_tp = confusion True True df_merged;
          n_tn = confusion False False df_merged;
          n_fp = confusion False True df_merged;
          n_fn = confusion True False df_merged;
          p = precision_of n_tp n_fp;
          r = recall_of n_tp n_fn
      in \<lparr>tp = n_tp, fp = n_fp, fn = n_fn, tn = n_tn,
          accuracy = accuracy_of n_tp n_tn n_fp n_fn,
          precision = p,
          recall = r,
          f1_score = f1_of p r,
          mae_px2 = mae_of df_merged,
          rmse_px2 = rmse_of df_merged,
          mape_percent = mape_of df_merged,
          num_images_area_eval = int (length (filter mask_row df_merged)),
          total_images = int (length df_merged)\<rparr>)"

text \<open>
  A CSV file as \<^verbatim>\<open>to_csv\<close> leaves it. A data frame without columns, which is what
  \<^verbatim>\<open>pd.DataFrame([])\<close> is when no row was collected, is written as a file without a
  header, and \<^verbatim>\<open>pd.read_csv\<close> raises \<^verbatim>\<open>EmptyDataError\<close> on it. Any other file holds a
  header and the rows below it (none, for a header alone).

  The rows of a \<open>Frame\<close> are the rows \<^verbatim>\<open>read_csv\<close> yields. The key columns
  \<^verbatim>\<open>split\<close> and \<^verbatim>\<open>file_name\<close> are text columns, as the pipeline writes them (a split
  name and a file name with an image extension), and \<^verbatim>\<open>read_csv\<close> keeps such cells as
  the strings written. A key column that \<^verbatim>\<open>read_csv\<close> would read as numbers, truth values
  or missing values is outside this type.
\<close>

datatype 'row csv = NoColumns | Frame "'row list"

fun read_csv :: "'row csv \<Rightarrow> error + 'row list" where
  "read_csv NoColumns = Inl EmptyDataError"
| "read_csv (Frame rows) = Inr rows"

text \<open>
  The three files of the output directory that the evaluator touches; \<^term>\<open>None\<close> is a
  file that does not exist.
\<close>

record outputs =
  gt_image_level_all_images :: "gt_row csv option"
  pred_image_level :: "pred_row csv option"
  gt_pred_image_level_merged_full :: "merged_row csv option"

text \<open>
  In source order: the check that both files exist, the two \<^verbatim>\<open>read_csv\<close> calls, the
  merge, the metrics, and the write of the merged table (which has its columns also when it
  has no row).
\<close>

definition evaluate_predictions :: "outputs \<Rightarrow> (error + metrics) \<times> outputs" where
  "evaluate_predictions out =
     (if gt_image_level_all_images out = None \<or> pred_image_level out = None
      then (Inl ValueError, out)
      else
        case read_csv (the (gt_image_level_all_images out)) of
          Inl e \<Rightarrow> (Inl e, out)
        | Inr df_gt \<Rightarrow>
            (case read_csv (the (pred_image_level out)) of
               Inl e \<Rightarrow> (Inl e, out)
             | Inr df_pred \<Rightarrow>
                 let df_merged = merge_inner df_gt df_pred
                 in (Inr (compute_metrics df_merged),
                     out\<lparr>gt_pred_image_level_merged_full := Some (Frame df_merged)\<rparr>)))"

section \<open>The specification's reading of MAPE\<close>

text \<open>
  Written from the specification, not from the code: the mean of
  \<open>|predicted - ground truth| / ground truth * 100\<close> over the rows that pass the area
  filter (ground-truth area > 0 or predicted area > 0) and whose ground-truth area is not
  zero; such a row adds a term, any other row adds none. Without such a row there is no
  value (NaN).
\<close>

definition mape_spec :: "merged_row list \<Rightarrow> float64" where
  "mape_spec df_merged =
     (let rows = filter (\<lambda>r. (area_px_gt (fst r) > 0 \<or> area_px_pred (snd r) > 0)
                              \<and> area_px_gt (fst r) \<noteq> 0) df_merged
      in if rows = [] then NaN
         else Fin (sum_list (map (\<lambda>r. \<bar>area_px_pred (snd r) - area_px_gt (fst r)\<bar>
                                          / area_px_gt (fst r) * 100) rows)
                   / real (length rows)))"

section \<open>Concrete inputs\<close>

text \<open>
  The three-image split of the specification's end-to-end scenario: image A with one
  object of 100 square pixels, image B without objects, image C with one object of 200 square pixels.
\<close>

definition scenario_doc :: coco where
  "scenario_doc =
     \<lparr>images =
        [\<lparr>img_id = 1, img_file_name = ''A.jpg'', img_width = 640, img_height = 640\<rparr>,
         \<lparr>img_id = 2, img_file_name = ''B.jpg'', img_width = 640, img_height = 640\<rparr>,
         \<lparr>img_id = 3, img_file_name = ''C.jpg'', img_width = 640, img_height = 640\<rparr>],
      categories = [\<lparr>cat_id = 1, cat_name = ''solar''\<rparr>],
      annotations =
        [\<lparr>ann_image_id = 1, ann_category_id = 1, ann_bbox = [0, 0, 10, 10],
          ann_area = Val 100, ann_attributes = Absent\<rparr>,
         \<lparr>ann_image_id = 3, ann_category_id = 1, ann_bbox = [5, 5, 10, 20],
          ann_area = Val 200, ann_attributes = Absent\<rparr>]\<rparr>"

definition gt_A :: gt_row where
  "gt_A = \<lparr>split = ''test'', file_name = ''A.jpg'', image_id = 1,
           img_width_px = 640, img_height_px = 640,
           num_boxes_gt = 1, area_px_gt = 100, area_m2_gt = 0, has_solar_gt = True\<rparr>"

definition gt_B :: gt_row where
  "gt_B = \<lparr>split = ''test'', file_name = ''B.jpg'', image_id = 2,
           img_width_px = 640, img_height_px = 640,
           num_boxes_gt = 0, area_px_gt = 0, area_m2_gt = 0, has_solar_gt = False\<rparr>"

definition gt_C :: gt_row where
  "gt_C = \<lparr>split = ''test'', file_name = ''C.jpg'', image_id = 3,
           img_width_px = 640, img_height_px = 640,
           num_boxes_gt = 1, area_px_gt = 200, area_m2_gt = 0, has_solar_gt = True\<rparr>"

text \<open>An image of the train split with the file name of image A.\<close>

definition gt_A_train :: gt_row where
  "gt_A_train = \<lparr>split = ''train'', file_name = ''A.jpg'', image_id = 1,
           img_width_px = 640, img_height_px = 640,
           num_boxes_gt = 1, area_px_gt = 100, area_m2_gt = 0, has_solar_gt = True\<rparr>"

text \<open>The predictions of the scenario: one box of 90 square pixels on A, none on B and C.\<close>

definition pred_A :: pred_row where
  "pred_A = \<lparr>split = ''test'', file_name = ''A.jpg'', image_path = ''data/test/A.jpg'',
             num_preds = 1, has_solar_pred = True, max_conf_pred = 9 / 10,
             area_px_pred = 90\<rparr>"

definition pred_B :: pred_row where
  "pred_B = \<lparr>split = ''test'', file_name = ''B.jpg'', image_path = ''data/test/B.jpg'',
             num_preds = 0, has_solar_pred = False, max_conf_pred = 0,
             area_px_pred = 0\<rparr>"

definition pred_C :: pred_row where
  "pred_C = \<lparr>split = ''test'', file_name = ''C.jpg'', image_path = ''data/test/C.jpg'',
             num_preds = 0, has_solar_pred = False, max_conf_pred = 0,
             area_px_pred = 0\<rparr>"

text \<open>A false alarm on image B: one predicted box of 50 square pixels.\<close>

definition pred_B_false_alarm :: pred_row where
  "pred_B_false_alarm =
     \<lparr>split = ''test'', file_name = ''B.jpg'', image_path = ''data/test/B.jpg'',
      num_preds = 1, has_solar_pred = True, max_conf_pred = 1 / 2,
      area_px_pred = 50\<rparr>"

definition scenario_out :: outputs where
  "scenario_out =
     \<lparr>gt_image_level_all_images = Some (Frame [gt_A, gt_B, gt_C]),
      pred_image_level = Some (Frame [pred_A, pred_B, pred_C]),
      gt_pred_image_level_merged_full = None\<rparr>"

text \<open>One image with one annotated box of 2 by 3 pixels and no \<^verbatim>\<open>area\<close> key.\<close>

definition doc_without_area :: coco where
  "doc_without_area =
     \<lparr>images =
        [\<lparr>img_id = 1, img_file_name = ''A.jpg'', img_width = 640, img_height = 640\<rparr>],
      categories = [\<lparr>cat_id = 1, cat_name = ''solar''\<rparr>],
      annotations =
        [\<lparr>ann_image_id = 1, ann_category_id = 1, ann_bbox = [0, 0, 2, 3],
          ann_area = Absent, ann_attributes = Absent\<rparr>]\<rparr>"

text \<open>One image, and one annotation that names an image id the document does not have.\<close>

definition doc_orphan_annotation :: coco where
  "doc_orphan_annotation =
     \<lparr>images =
        [\<lparr>img_id = 1, img_file_name = ''A.jpg'', img_width = 640, img_height = 640\<rparr>],
      categories = [\<lparr>cat_id = 1, cat_name = ''solar''\<rparr>],
      annotations =
        [\<lparr>ann_image_id = 2, ann_category_id = 1, ann_bbox = [0, 0, 2, 3],
          ann_area = Val 6, ann_attributes = Absent\<rparr>]\<rparr>"

section \<open>Properties\<close>

lemma confusion_total:
  "confusion True True m + confusion False False m + confusion False True m
     + confusion True False m = int (length m)"
  by (induction m) (auto simp: confusion_def)

text \<open>
  C7. For every merged table, the four confusion-matrix counts returned by the
  evaluator add up to the number of rows of the merged table, which is the value reported
  as \<^verbatim>\<open>total_images\<close>.
\<close>

theorem confusion_counts_sum_to_total:
  "tp (compute_metrics m) + tn (compute_metrics m) + fp (compute_metrics m)
     + fn (compute_metrics m) = total_images (compute_metrics m)
   \<and> total_images (compute_metrics m) = int (length m)"
  using confusion_total [of m] by (simp add: compute_metrics_def Let_def)


lemma eps_pos: "0 < eps"
  by (simp add: eps_def)

lemma confusion_nonneg: "0 \<le> confusion a b m"
  by (simp add: confusion_def)

lemma ratio_unit:
  assumes "0 \<le> a" "0 \<le> b"
  shows "\<exists>v. fdiv a (a + b + eps) = Fin v \<and> 0 \<le> v \<and> v \<le> 1"
proof -
  have d: "0 < a + b + eps" using assms eps_pos by linarith
  then have "fdiv a (a + b + eps) = Fin (a / (a + b + eps))"
    by (simp add: fdiv_def)
  moreover have "0 \<le> a / (a + b + eps)" using assms d by simp
  moreover have "a / (a + b + eps) \<le> 1" using assms d eps_pos by simp
  ultimately show ?thesis by blast
qed

lemma f1_unit:
  assumes "0 \<le> p" "p \<le> 1" "0 \<le> r" "r \<le> 1"
  shows "\<exists>v. f1_of (Fin p) (Fin r) = Fin v \<and> 0 \<le> v \<and> v \<le> 1"
proof -
  have d: "0 < p + r + eps" using assms eps_pos by linarith
  have "p * r \<le> p * 1" using assms by (intro mult_left_mono) auto
  moreover have "p * r \<le> 1 * r" using assms by (intro mult_right_mono) auto
  ultimately have n: "2 * p * r \<le> p + r + eps" using eps_pos by linarith
  have nn: "0 \<le> 2 * p * r" using assms by simp
  have "f1_of (Fin p) (Fin r) = Fin (2 * p * r / (p + r + eps))"
    using d by (simp add: f1_of_def fdiv_def mult.assoc)
  moreover have "0 \<le> 2 * p * r / (p + r + eps)" using nn d by simp
  moreover have "2 * p * r / (p + r + eps) \<le> 1" using n d by simp
  ultimately show ?thesis by blast
qed


text \<open>
  C6. For every merged table, with a class absent or with no row at all, precision,
  recall, F1 and accuracy are finite (no division meets a zero divisor, every divisor
  carries \<^const>\<open>eps\<close>) and lie between 0 and 1.
\<close>

theorem classification_metrics_unit_interval:
  "\<exists>p r f a.
     precision (compute_metrics m) = Fin p \<and> 0 \<le> p \<and> p \<le> 1 \<and>
     recall (compute_metrics m) = Fin r \<and> 0 \<le> r \<and> r \<le> 1 \<and>
     f1_score (compute_metrics m) = Fin f \<and> 0 \<le> f \<and> f \<le> 1 \<and>
     accuracy (compute_metrics m) = Fin a \<and> 0 \<le> a \<and> a \<le> 1"
proof -
  let ?tp = "confusion True True m" and ?tn = "confusion False False m"
  let ?fp = "confusion False True m" and ?fn = "confusion True False m"
  obtain p where p: "precision_of ?tp ?fp = Fin p" "0 \<le> p" "p \<le> 1"
    unfolding precision_of_def
    using ratio_unit [of "of_int ?tp" "of_int ?fp"] confusion_nonneg by auto
  obtain r where r: "recall_of ?tp ?fn = Fin r" "0 \<le> r" "r \<le> 1"
    unfolding recall_of_def
    using ratio_unit [of "of_int ?tp" "of_int ?fn"] confusion_nonneg by auto
  obtain f where f: "f1_of (Fin p) (Fin r) = Fin f" "0 \<le> f" "f \<le> 1"
    using f1_unit [OF p(2,3) r(2,3)] by auto
  have "\<exists>v. fdiv (of_int ?tp + of_int ?tn) ((of_int ?tp + of_int ?tn) + (of_int ?fp + of_int ?fn) + eps) = Fin v
          \<and> 0 \<le> v \<and> v \<le> 1"
    by (rule ratio_unit) (simp_all add: confusion_nonneg)
  then obtain a where a: "accuracy_of ?tp ?tn ?fp ?fn = Fin a" "0 \<le> a" "a \<le> 1"
    unfolding accuracy_of_def by (auto simp: add.assoc)
  have "precision (compute_metrics m) = Fin p" "recall (compute_metrics m) = Fin r"
    "f1_score (compute_metrics m) = Fin f" "accuracy (compute_metrics m) = Fin a"
    using p(1) r(1) f(1) a(1) by (simp_all add: compute_metrics_def Let_def)
  with p r f a show ?thesis by blast
qed


lemma mape_cell:
  "mul64 (rel_err r) (Fin 100)
     = (if area_px_gt (fst r) = 0 then NaN
        else Fin (abs_err r / area_px_gt (fst r) * 100))"
  by (simp add: rel_err_def replace_zero_def fdiv_def)

lemma notna_mape_cells:
  "filter (\<lambda>c. c \<noteq> NaN) (map (\<lambda>r. mul64 (rel_err r) (Fin 100)) xs)
     = map (\<lambda>r. Fin (abs_err r / area_px_gt (fst r) * 100))
         (filter (\<lambda>r. area_px_gt (fst r) \<noteq> 0) xs)"
  by (induction xs) (simp_all add: mape_cell)

lemma sum64_Fin: "sum64 (map (\<lambda>r. Fin (f r)) xs) = Fin (sum_list (map f xs))"
  by (induction xs) (simp_all add: sum64_def)

lemma mean_skipna_Fin:
  "mean_skipna (map (\<lambda>r. Fin (f r)) xs)
     = (if xs = [] then NaN else Fin (sum_list (map f xs) / real (length xs)))"
proof -
  have "filter (\<lambda>c. c \<noteq> NaN) (map (\<lambda>r. Fin (f r)) xs) = map (\<lambda>r. Fin (f r)) xs"
    by (induction xs) simp_all
  then show ?thesis
    by (simp add: mean_skipna_def sum64_Fin fdiv_def)
qed

lemma mean_skipna_notna:
  "mean_skipna (filter (\<lambda>c. c \<noteq> NaN) cells) = mean_skipna cells"
  by (simp add: mean_skipna_def)

lemma mape_of_eq_spec: "mape_of df_merged = mape_spec df_merged"
proof -
  let ?cells = "map (\<lambda>r. mul64 (rel_err r) (Fin 100)) (filter mask_row df_merged)"
  have "mape_of df_merged = mean_skipna (filter (\<lambda>c. c \<noteq> NaN) ?cells)"
    by (simp only: mape_of_def mean_skipna_notna)
  also have "\<dots> = mean_skipna
      (map (\<lambda>r. Fin (abs_err r / area_px_gt (fst r) * 100))
         (filter (\<lambda>r. area_px_gt (fst r) \<noteq> 0) (filter mask_row df_merged)))"
    by (simp only: notna_mape_cells)
  also have "\<dots> = mape_spec df_merged"
    by (simp add: mean_skipna_Fin mape_spec_def Let_def mask_row_def abs_err_def)
  finally show ?thesis .
qed

text \<open>
  C4. The MAPE the evaluator returns is the mean of
  \<open>|predicted - ground truth| / ground truth * 100\<close> over the area-filtered rows whose
  ground-truth area is not zero: a row with ground-truth area 0 adds no term, neither to
  the sum nor to the count, and it does not make the mean infinite. The code agrees with
  \<^const>\<open>mape_spec\<close> on every table.
\<close>

theorem mape_skips_zero_ground_truth:
  "mape_percent (compute_metrics df_merged) = mape_spec df_merged"
  using mape_of_eq_spec [of df_merged] by (simp add: compute_metrics_def Let_def)

text \<open>
  Without the replacement of 0 by NaN the division would give an infinity, which the mean
  keeps: the mean of the cells of a false alarm is then infinite.
\<close>

lemma mean_keeps_infinity:
  "0 < a \<Longrightarrow> mean_skipna [mul64 (div64 (Fin a) (Fin 0)) (Fin 100)] = PosInf"
  by (simp add: mean_skipna_def sum64_def fdiv_def)


text \<open>
  C8. When the ground-truth file or the prediction file is missing,
  \<^verbatim>\<open>evaluate_predictions\<close> raises \<^verbatim>\<open>ValueError\<close> and leaves the output directory as
  it was: no merged table is written and no metrics are returned.
\<close>

theorem evaluate_requires_artifacts:
  "gt_image_level_all_images out = None \<or> pred_image_level out = None
   \<Longrightarrow> evaluate_predictions out = (Inl ValueError, out)"
  by (simp add: evaluate_predictions_def)


lemma evaluate_returns:
  "gt_image_level_all_images out = Some (Frame g) \<Longrightarrow> pred_image_level out = Some (Frame p)
   \<Longrightarrow> evaluate_predictions out =
        (Inr (compute_metrics (merge_inner g p)),
         out\<lparr>gt_pred_image_level_merged_full := Some (Frame (merge_inner g p))\<rparr>)"
  by (simp add: evaluate_predictions_def Let_def)

text \<open>
  A file without columns, as the pipeline writes it when it has collected no row, ends the
  call in \<^verbatim>\<open>EmptyDataError\<close>, and nothing is written.
\<close>

lemma evaluate_empty_csv:
  "gt_image_level_all_images out = Some g \<Longrightarrow> pred_image_level out = Some p
   \<Longrightarrow> g = NoColumns \<or> p = NoColumns
   \<Longrightarrow> evaluate_predictions out = (Inl EmptyDataError, out)"
  by (cases g; cases p) (auto simp: evaluate_predictions_def)


lemma filter_mask_empty: "\<forall>r\<in>set m. \<not> mask_row r \<Longrightarrow> filter mask_row m = []"
  by (induction m) auto



lemma count_list_pairs:
  "count_list (map (Pair g) ps) (g', p) = (if g = g' then count_list ps p else 0)"
  by (induction ps) auto

lemma count_list_filter_if:
  "count_list (filter P xs) x = (if P x then count_list xs x else 0)"
  by (induction xs) auto

lemma count_list_app: "count_list (xs @ ys) x = count_list xs x + count_list ys x"
  by (induction xs) auto

lemma merge_inner_Cons:
  "merge_inner (g # gs) df_pred
     = map (Pair g) (filter (\<lambda>p. key p = key g) df_pred) @ merge_inner gs df_pred"
  by (simp add: merge_inner_def)

lemma merge_inner_count:
  "count_list (merge_inner df_gt df_pred) (g, p)
     = (if key g = key p then count_list df_gt g * count_list df_pred p else 0)"
proof (induction df_gt)
  case Nil
  show ?case by (simp add: merge_inner_def)
next
  case (Cons g' gs)
  show ?case
    unfolding merge_inner_Cons count_list_app count_list_pairs count_list_filter_if Cons.IH
    by (auto simp: algebra_simps)
qed

lemma key_eq: "key g = key p \<longleftrightarrow> split g = split p \<and> file_name g = file_name p"
  by (simp add: key_def)

lemma merge_inner_drop_left:
  "merge_inner (filter (\<lambda>g. \<exists>p\<in>set df_pred. key p = key g) df_gt) df_pred
     = merge_inner df_gt df_pred"
proof (induction df_gt)
  case Nil
  show ?case by (simp add: merge_inner_def)
next
  case (Cons g gs)
  have "\<not> (\<exists>p\<in>set df_pred. key p = key g) \<Longrightarrow> filter (\<lambda>p. key p = key g) df_pred = []"
    unfolding filter_empty_conv by blast
  with Cons show ?case by (auto simp: merge_inner_def)
qed

lemma filter_filter_absorb:
  "(\<And>x. x \<in> set xs \<Longrightarrow> P x \<Longrightarrow> Q x) \<Longrightarrow> filter P (filter Q xs) = filter P xs"
  by (induction xs) auto

lemma merge_inner_drop_both:
  "merge_inner (filter (\<lambda>g. \<exists>p\<in>set df_pred. key p = key g) df_gt)
     (filter (\<lambda>p. \<exists>g\<in>set df_gt. key g = key p) df_pred)
     = merge_inner df_gt df_pred"
proof -
  let ?gt' = "filter (\<lambda>g. \<exists>p\<in>set df_pred. key p = key g) df_gt"
  let ?pred' = "filter (\<lambda>p. \<exists>g\<in>set df_gt. key g = key p) df_pred"
  have "filter (\<lambda>p. key p = key g) ?pred' = filter (\<lambda>p. key p = key g) df_pred"
    if "g \<in> set ?gt'" for g
  proof (rule filter_filter_absorb)
    fix p :: pred_row
    assume "key p = key g"
    moreover from that have "g \<in> set df_gt" by simp
    ultimately show "\<exists>g\<in>set df_gt. key g = key p" by metis
  qed
  then have "merge_inner ?gt' ?pred' = merge_inner ?gt' df_pred"
    unfolding merge_inner_def by (auto intro!: arg_cong [where f = concat])
  then show ?thesis
    by (simp add: merge_inner_drop_left)
qed

text \<open>
  C5. On every pair of tables the evaluator writes, and computes its metrics from, their
  inner join on (split, file name): a pair of a ground-truth row and a prediction row
  occurs in the written table as often as the product of its rows' occurrences when both
  split and file name agree, and never otherwise. An image whose key is in one table only
  is therefore in no merged row, and deleting every such row from the two tables changes
  neither the written table nor any metric returned.
\<close>

theorem merge_is_strict_inner_join:
  fixes df_gt :: "gt_row list" and df_pred :: "pred_row list"
  defines "inp \<equiv> \<lambda>out g p.
     out\<lparr>gt_image_level_all_images := Some (Frame g), pred_image_level := Some (Frame p)\<rparr>"
  defines "gt' \<equiv> filter (\<lambda>g. \<exists>p\<in>set df_pred. split p = split g \<and> file_name p = file_name g) df_gt"
  defines "pred' \<equiv> filter (\<lambda>p. \<exists>g\<in>set df_gt. split g = split p \<and> file_name g = file_name p) df_pred"
  shows "\<exists>merged.
           evaluate_predictions (inp out df_gt df_pred)
             = (Inr (compute_metrics merged),
                (inp out df_gt df_pred)\<lparr>gt_pred_image_level_merged_full := Some (Frame merged)\<rparr>)
         \<and> merged = merge_inner df_gt df_pred
         \<and> (\<forall>g p. count_list merged (g, p)
                   = (if split g = split p \<and> file_name g = file_name p
                      then count_list df_gt g * count_list df_pred p else 0))
         \<and> fst (evaluate_predictions (inp out gt' pred')) = Inr (compute_metrics merged)
         \<and> gt_pred_image_level_merged_full (snd (evaluate_predictions (inp out gt' pred')))
             = Some (Frame merged)"
proof -
  let ?merged = "merge_inner df_gt df_pred"
  have a: "evaluate_predictions (inp out df_gt df_pred)
             = (Inr (compute_metrics ?merged),
                (inp out df_gt df_pred)\<lparr>gt_pred_image_level_merged_full := Some (Frame ?merged)\<rparr>)"
    unfolding inp_def by (rule evaluate_returns) simp_all
  have b: "\<forall>g p. count_list ?merged (g, p)
                   = (if split g = split p \<and> file_name g = file_name p
                      then count_list df_gt g * count_list df_pred p else 0)"
    by (simp add: merge_inner_count key_eq)
  have "merge_inner gt' pred' = ?merged"
    using merge_inner_drop_both [of df_pred df_gt]
    unfolding gt'_def pred'_def key_eq .
  moreover have "evaluate_predictions (inp out gt' pred')
             = (Inr (compute_metrics (merge_inner gt' pred')),
                (inp out gt' pred')\<lparr>gt_pred_image_level_merged_full
                   := Some (Frame (merge_inner gt' pred'))\<rparr>)"
    unfolding inp_def by (rule evaluate_returns) simp_all
  ultimately have c: "fst (evaluate_predictions (inp out gt' pred')) = Inr (compute_metrics ?merged)"
    "gt_pred_image_level_merged_full (snd (evaluate_predictions (inp out gt' pred')))
             = Some (Frame ?merged)"
    by simp_all
  from a b c show ?thesis by blast
qed


lemma empty_selection_iff: "filter mask_row m = [] \<longleftrightarrow> (\<forall>r\<in>set m. \<not> mask_row r)"
  by (simp add: filter_empty_conv)

lemma mae_nan_iff: "mae_of m = NaN \<longleftrightarrow> filter mask_row m = []"
  by (simp add: mae_of_def mean_skipna_Fin)

lemma rmse_nan_iff: "rmse_of m = NaN \<longleftrightarrow> filter mask_row m = []"
proof -
  have "0 \<le> sum_list (map sq_err xs)" for xs :: "merged_row list"
    by (induction xs) (simp_all add: sq_err_def)
  then have "\<not> sum_list (map sq_err xs) / real (length xs) < 0" for xs :: "merged_row list"
    by (simp add: not_less)
  then show ?thesis
    by (simp add: rmse_of_def mean_skipna_Fin)
qed

lemma mape_nan_iff:
  "mape_of m = NaN \<longleftrightarrow> (\<forall>r\<in>set (filter mask_row m). area_px_gt (fst r) = 0)"
proof -
  have "mape_of m = NaN
      \<longleftrightarrow> filter (\<lambda>r. area_px_gt (fst r) \<noteq> 0) (filter mask_row m) = []"
    by (simp add: mape_of_eq_spec mape_spec_def Let_def mask_row_def)
  then show ?thesis
    by (auto simp: filter_empty_conv)
qed

text \<open>
  C10. When both files hold a table the evaluator returns metrics, also when no merged row
  passes the area filter (the merged table is empty, or every area is zero). MAE and RMSE
  are NaN exactly when no merged row passes the filter, and MAPE is NaN exactly when no
  row that passes it has a ground-truth area other than 0; so all three are NaN when no
  row passes.
\<close>

theorem area_metrics_nan_on_empty_selection:
  assumes "gt_image_level_all_images out = Some (Frame df_gt)"
      and "pred_image_level out = Some (Frame df_pred)"
  shows "\<exists>m. fst (evaluate_predictions out) = Inr m
           \<and> (mae_px2 m = NaN \<longleftrightarrow> (\<forall>r\<in>set (merge_inner df_gt df_pred). \<not> mask_row r))
           \<and> (rmse_px2 m = NaN \<longleftrightarrow> (\<forall>r\<in>set (merge_inner df_gt df_pred). \<not> mask_row r))
           \<and> (mape_percent m = NaN
                \<longleftrightarrow> (\<forall>r\<in>set (filter mask_row (merge_inner df_gt df_pred)).
                       area_px_gt (fst r) = 0))
           \<and> ((\<forall>r\<in>set (merge_inner df_gt df_pred). \<not> mask_row r)
                \<longrightarrow> mae_px2 m = NaN \<and> rmse_px2 m = NaN \<and> mape_percent m = NaN)"
proof -
  let ?M = "merge_inner df_gt df_pred"
  let ?m = "compute_metrics ?M"
  have ret: "fst (evaluate_predictions out) = Inr ?m"
    using assms by (simp add: evaluate_returns)
  have f: "mae_px2 ?m = mae_of ?M" "rmse_px2 ?m = rmse_of ?M" "mape_percent ?m = mape_of ?M"
    by (simp_all add: compute_metrics_def Let_def)
  have a: "mae_px2 ?m = NaN \<longleftrightarrow> (\<forall>r\<in>set ?M. \<not> mask_row r)"
    unfolding f mae_nan_iff by (rule empty_selection_iff)
  have b: "rmse_px2 ?m = NaN \<longleftrightarrow> (\<forall>r\<in>set ?M. \<not> mask_row r)"
    unfolding f rmse_nan_iff by (rule empty_selection_iff)
  have c: "mape_percent ?m = NaN
      \<longleftrightarrow> (\<forall>r\<in>set (filter mask_row ?M). area_px_gt (fst r) = 0)"
    unfolding f by (rule mape_nan_iff)
  have d: "mae_px2 ?m = NaN \<and> rmse_px2 ?m = NaN \<and> mape_percent ?m = NaN"
    if "\<forall>r\<in>set ?M. \<not> mask_row r"
    using that a b c by simp
  from ret a b c d show ?thesis by blast
qed


lemma images_by_id_None: "images_by_id imgs k = None \<longleftrightarrow> k \<notin> img_id ` set imgs"
  by (simp add: images_by_id_def map_of_eq_None_iff image_image)

lemma parse_annotation_unknown_image:
  "length (ann_bbox a) = 4 \<Longrightarrow> imgs (ann_image_id a) = None
   \<Longrightarrow> parse_annotation s imgs cats a = Inl KeyError"
  by (simp add: parse_annotation_def Let_def)

lemma parse_annotation_known_image:
  "length (ann_bbox a) = 4 \<Longrightarrow> imgs (ann_image_id a) = Some i
   \<Longrightarrow> \<exists>row. parse_annotation s imgs cats a = Inr row"
  by (simp add: parse_annotation_def Let_def)

lemma parse_annotations_total_iff:
  assumes "\<forall>a\<in>set anns. length (ann_bbox a) = 4"
  shows "if \<forall>a\<in>set anns. imgs (ann_image_id a) \<noteq> None
         then \<exists>rows. parse_annotations s imgs cats anns = Inr rows
         else parse_annotations s imgs cats anns = Inl KeyError"
  using assms
proof (induction anns)
  case Nil
  show ?case by simp
next
  case (Cons a anns)
  show ?case
  proof (cases "imgs (ann_image_id a)")
    case None
    with Cons.prems show ?thesis
      by (simp add: parse_annotation_unknown_image)
  next
    case (Some i)
    with Cons.prems obtain row where "parse_annotation s imgs cats a = Inr row"
      using parse_annotation_known_image [of a imgs i s cats] by auto
    with Some Cons show ?thesis
      by (auto split: sum.splits if_splits)
  qed
qed

lemma parse_annotation_Inr_known:
  "parse_annotation s imgs cats a = Inr row \<Longrightarrow> imgs (ann_image_id a) \<noteq> None"
  by (auto simp: parse_annotation_def Let_def split: if_splits option.splits)

lemma parse_annotations_Inr_known:
  "parse_annotations s imgs cats anns = Inr rows
   \<Longrightarrow> \<forall>a\<in>set anns. imgs (ann_image_id a) \<noteq> None"
proof (induction anns arbitrary: rows)
  case Nil
  show ?case by simp
next
  case (Cons a anns)
  then show ?case
    by (auto split: sum.splits dest: parse_annotation_Inr_known)
qed

text \<open>
  C9. \<^verbatim>\<open>parse_coco_split\<close> returns a table only if every annotation names an image
  of the document: an annotation with an unknown image id always ends the call in an
  exception, with no row skipped or produced. On a document whose boxes all have four
  numbers the exception is \<^verbatim>\<open>KeyError\<close>, and the call returns exactly when every image
  id is known.
\<close>

theorem parse_coco_split_needs_known_images:
  "((\<exists>a\<in>set (annotations doc). ann_image_id a \<notin> img_id ` set (images doc))
      \<longrightarrow> (\<exists>e. parse_coco_split s (Some doc) = Inl e))
   \<and> ((\<forall>a\<in>set (annotations doc). length (ann_bbox a) = 4)
      \<longrightarrow> ((\<exists>rows. parse_coco_split s (Some doc) = Inr rows)
              \<longleftrightarrow> (\<forall>a\<in>set (annotations doc). ann_image_id a \<in> img_id ` set (images doc)))
          \<and> ((\<exists>a\<in>set (annotations doc). ann_image_id a \<notin> img_id ` set (images doc))
              \<longrightarrow> parse_coco_split s (Some doc) = Inl KeyError))"
proof -
  let ?imgs = "images_by_id (images doc)"
  let ?run = "parse_annotations s ?imgs (cats_by_id (categories doc)) (annotations doc)"
  have k: "(\<forall>a\<in>set (annotations doc). ?imgs (ann_image_id a) \<noteq> None)
        \<longleftrightarrow> (\<forall>a\<in>set (annotations doc). ann_image_id a \<in> img_id ` set (images doc))"
    by (simp add: images_by_id_None)
  have run: "parse_coco_split s (Some doc) = ?run"
    by (simp add: parse_coco_split_def)
  have "\<exists>e. ?run = Inl e"
    if "\<exists>a\<in>set (annotations doc). ann_image_id a \<notin> img_id ` set (images doc)"
  proof (cases ?run)
    case (Inl e)
    then show ?thesis by blast
  next
    case (Inr rows)
    from parse_annotations_Inr_known [OF Inr] k that show ?thesis by blast
  qed
  moreover have "((\<exists>rows. ?run = Inr rows)
              \<longleftrightarrow> (\<forall>a\<in>set (annotations doc). ann_image_id a \<in> img_id ` set (images doc)))
          \<and> ((\<exists>a\<in>set (annotations doc). ann_image_id a \<notin> img_id ` set (images doc))
              \<longrightarrow> ?run = Inl KeyError)"
    if wf: "\<forall>a\<in>set (annotations doc). length (ann_bbox a) = 4"
    using parse_annotations_total_iff [OF wf, of ?imgs s "cats_by_id (categories doc)"]
    unfolding k by (auto split: if_splits)
  ultimately show ?thesis
    unfolding run by blast
qed

lemma parse_annotations_nth:
  "parse_annotations s imgs cats anns = Inr rows
   \<Longrightarrow> length rows = length anns
       \<and> (\<forall>i<length anns. parse_annotation s imgs cats (anns ! i) = Inr (rows ! i))"
proof (induction anns arbitrary: rows)
  case Nil
  then show ?case by simp
next
  case (Cons a anns)
  then show ?case
    by (auto split: sum.splits simp: nth_Cons split: nat.splits)
qed

lemma parse_annotation_box:
  "parse_annotation s imgs cats a = Inr row
   \<Longrightarrow> width_px row = ann_bbox a ! 2 \<and> height_px row = ann_bbox a ! 3
       \<and> area_px row = get_or (ann_area a) (Some (width_px row * height_px row))"
  by (auto simp: parse_annotation_def Let_def split: if_splits option.splits)

text \<open>
  The object-level table does derive a missing area from the box: width times height.
\<close>

lemma parse_coco_split_area_fallback:
  assumes "parse_coco_split s (Some doc) = Inr rows"
      and "i < length (annotations doc)"
      and "ann_area (annotations doc ! i) = Absent"
  shows "length rows = length (annotations doc)
       \<and> area_px (rows ! i) = Some (width_px (rows ! i) * height_px (rows ! i))
       \<and> width_px (rows ! i) = ann_bbox (annotations doc ! i) ! 2
       \<and> height_px (rows ! i) = ann_bbox (annotations doc ! i) ! 3"
proof -
  from assms(1) have p: "parse_annotations s (images_by_id (images doc))
      (cats_by_id (categories doc)) (annotations doc) = Inr rows"
    by (simp add: parse_coco_split_def)
  from parse_annotations_nth [OF p] assms(2)
  have l: "length rows = length (annotations doc)"
    and r: "parse_annotation s (images_by_id (images doc)) (cats_by_id (categories doc))
              (annotations doc ! i) = Inr (rows ! i)"
    by auto
  with l parse_annotation_box [OF r] assms(3) show ?thesis by simp
qed

lemma map_of_agg_None: "k \<notin> fst ` set df_ann \<Longrightarrow> map_of (agg df_ann) k = None"
  by (simp add: agg_def map_of_eq_None_iff image_image Let_def)

lemma merge_left_negative:
  "groups (img_id img) = None \<Longrightarrow> merge_left s groups img = negative_row s img"
  by (simp add: merge_left_def negative_row_def)

text \<open>
  C2. For every existing annotation document and every image of it that no annotation
  names, \<^verbatim>\<open>build_gt_for_split\<close> returns one row per image, in the order of the images,
  and the row of that image has count 0, both area sums 0.0 and the flag false.
\<close>

theorem negative_image_keeps_its_row:
  assumes "i < length (images doc)"
      and "\<forall>a\<in>set (annotations doc). ann_image_id a \<noteq> img_id (images doc ! i)"
  shows "\<exists>rows. build_gt_for_split s (Some doc) = Inr rows
           \<and> length rows = length (images doc)
           \<and> map image_id rows = map img_id (images doc)
           \<and> map file_name rows = map img_file_name (images doc)
           \<and> split (rows ! i) = s
           \<and> file_name (rows ! i) = img_file_name (images doc ! i)
           \<and> image_id (rows ! i) = img_id (images doc ! i)
           \<and> num_boxes_gt (rows ! i) = 0
           \<and> area_px_gt (rows ! i) = 0
           \<and> area_m2_gt (rows ! i) = 0
           \<and> has_solar_gt (rows ! i) = False"
proof (cases "annotations doc = []")
  case True
  with assms(1) show ?thesis
    by (simp add: build_gt_for_split_def Let_def negative_row_def comp_def)
next
  case False
  let ?groups = "map_of (agg (rows_ann (annotations doc)))"
  from assms(1) have ne: "images doc \<noteq> []" by auto
  have "img_id (images doc ! i) \<notin> fst ` set (rows_ann (annotations doc))"
    using assms(2) by (auto simp: rows_ann_def)
  then have "?groups (img_id (images doc ! i)) = None"
    by (rule map_of_agg_None)
  then have row: "merge_left s ?groups (images doc ! i) = negative_row s (images doc ! i)"
    by (rule merge_left_negative)
  have ids: "image_id (merge_left s g img) = img_id img"
    "file_name (merge_left s g img) = img_file_name img" for g img
    by (simp_all add: merge_left_def split: prod.splits)
  from False ne have "build_gt_for_split s (Some doc) = Inr (map (merge_left s ?groups) (images doc))"
    by (simp add: build_gt_for_split_def Let_def)
  with assms(1) row ids show ?thesis
    by (simp add: negative_row_def comp_def)
qed



lemma scenario_gt_built:
  "build_gt_for_split ''test'' (Some scenario_doc) = Inr [gt_A, gt_B, gt_C]"
  by (simp add: build_gt_for_split_def scenario_doc_def Let_def rows_ann_def agg_def
      merge_left_def sum_skipna_def dropna_def List.map_filter_def no_attributes_def gt_A_def gt_B_def gt_C_def)

lemma scenario_merged:
  "merge_inner [gt_A, gt_B, gt_C] [pred_A, pred_B, pred_C]
     = [(gt_A, pred_A), (gt_B, pred_B), (gt_C, pred_C)]"
  by (simp add: merge_inner_def key_def gt_A_def gt_B_def gt_C_def pred_A_def pred_B_def pred_C_def)


lemmas scenario_rows =
  gt_A_def gt_B_def gt_C_def pred_A_def pred_B_def pred_C_def pred_B_false_alarm_def

lemma scenario_returns:
  "fst (evaluate_predictions scenario_out)
     = Inr (compute_metrics [(gt_A, pred_A), (gt_B, pred_B), (gt_C, pred_C)])"
  by (simp add: evaluate_predictions_def scenario_out_def Let_def scenario_merged)

lemma scenario_confusion:
  "confusion True True [(gt_A, pred_A), (gt_B, pred_B), (gt_C, pred_C)] = 1"
  "confusion False False [(gt_A, pred_A), (gt_B, pred_B), (gt_C, pred_C)] = 1"
  "confusion False True [(gt_A, pred_A), (gt_B, pred_B), (gt_C, pred_C)] = 0"
  "confusion True False [(gt_A, pred_A), (gt_B, pred_B), (gt_C, pred_C)] = 1"
  by (simp_all add: confusion_def scenario_rows)

lemma scenario_mask:
  "mask_row (gt_A, pred_A)" "\<not> mask_row (gt_B, pred_B)" "mask_row (gt_C, pred_C)"
  "mask_row (gt_B, pred_B_false_alarm)"
  by (simp_all add: mask_row_def scenario_rows)

lemma scenario_mae:
  "mae_of [(gt_A, pred_A), (gt_B, pred_B), (gt_C, pred_C)] = Fin 105"
  by (simp add: mae_of_def scenario_mask mean_skipna_def sum64_def fdiv_def)
    (simp add: abs_err_def scenario_rows)

lemma accuracy_of_scenario: "accuracy_of 1 1 0 1 = Fin (2 / (3 + eps))"
  by (simp add: accuracy_of_def fdiv_def eps_def)

text \<open>
  C3, as the code computes it. On the three-image scenario the evaluator returns
  tp = 1, tn = 1, fn = 1, fp = 0 and an MAE of 105 over the two images A and C; the
  accuracy is \<open>2 / (3 + eps)\<close>, which is below 2/3 by less than \<^const>\<open>eps\<close>.
\<close>

theorem scenario_evaluation:
  "\<exists>m. fst (evaluate_predictions scenario_out) = Inr m
      \<and> tp m = 1 \<and> tn m = 1 \<and> fn m = 1 \<and> fp m = 0
      \<and> accuracy m = Fin (2 / (3 + eps))
      \<and> 2 / (3 + eps) < 2 / 3 \<and> 2 / 3 - 2 / (3 + eps) < eps
      \<and> mae_px2 m = Fin 105
      \<and> num_images_area_eval m = 2 \<and> total_images m = 3"
proof -
  let ?m = "compute_metrics [(gt_A, pred_A), (gt_B, pred_B), (gt_C, pred_C)]"
  have "tp ?m = 1" "tn ?m = 1" "fn ?m = 1" "fp ?m = 0"
    "accuracy ?m = Fin (2 / (3 + eps))" "mae_px2 ?m = Fin 105"
    "num_images_area_eval ?m = 2" "total_images ?m = 3"
    by (simp_all add: compute_metrics_def Let_def scenario_confusion accuracy_of_scenario
        scenario_mae scenario_mask)
  moreover have "2 / (3 + eps) < 2 / 3" "2 / 3 - 2 / (3 + eps) < eps"
    by (simp_all add: eps_def)
  ultimately show ?thesis
    using scenario_returns by blast
qed

text \<open>
  C3 with an accuracy of exactly 2/3 does not hold: the accuracy returned on the
  scenario is not 2/3, because the divisor carries \<^const>\<open>eps\<close>.
\<close>

theorem scenario_accuracy_is_not_two_thirds:
  "\<not> (\<exists>m. fst (evaluate_predictions scenario_out) = Inr m
         \<and> tp m = 1 \<and> tn m = 1 \<and> fn m = 1 \<and> fp m = 0
         \<and> accuracy m = Fin (2 / 3) \<and> mae_px2 m = Fin 105)"
proof -
  let ?m = "compute_metrics [(gt_A, pred_A), (gt_B, pred_B), (gt_C, pred_C)]"
  have "accuracy ?m = Fin (2 / (3 + eps))"
    by (simp add: compute_metrics_def Let_def scenario_confusion accuracy_of_scenario)
  moreover have "2 / (3 + eps) \<noteq> 2 / 3"
    by (simp add: eps_def)
  ultimately have "accuracy ?m \<noteq> Fin (2 / 3)" by simp
  then show ?thesis
    using scenario_returns by auto
qed

text \<open>
  C1. An annotation of 2 by 3 pixels without an \<^verbatim>\<open>area\<close> key:
  \<^verbatim>\<open>build_gt_for_split\<close> sums 0 for its image, while \<^verbatim>\<open>parse_coco_split\<close> gives the
  same object the area 6 = 2 * 3.
\<close>

theorem build_gt_sums_zero_for_missing_area:
  "build_gt_for_split ''train'' (Some doc_without_area)
     = Inr [\<lparr>split = ''train'', file_name = ''A.jpg'', image_id = 1,
             img_width_px = 640, img_height_px = 640,
             num_boxes_gt = 1, area_px_gt = 0, area_m2_gt = 0, has_solar_gt = True\<rparr>]
   \<and> map_sum id (map (\<lambda>row. (width_px row, height_px row, area_px row)))
        (parse_coco_split ''train'' (Some doc_without_area)) = Inr [(2, 3, Some 6)]"
  by (simp add: build_gt_for_split_def parse_coco_split_def doc_without_area_def Let_def
      rows_ann_def agg_def merge_left_def sum_skipna_def dropna_def List.map_filter_def
      no_attributes_def parse_annotation_def images_by_id_def cats_by_id_def get_def)



text \<open>
  The three-image scenario: the four counts add up to 3.
\<close>

theorem confusion_counts_sum_to_total_witness:
  "tp (compute_metrics [(gt_A, pred_A), (gt_B, pred_B), (gt_C, pred_C)])
     + tn (compute_metrics [(gt_A, pred_A), (gt_B, pred_B), (gt_C, pred_C)])
     + fp (compute_metrics [(gt_A, pred_A), (gt_B, pred_B), (gt_C, pred_C)])
     + fn (compute_metrics [(gt_A, pred_A), (gt_B, pred_B), (gt_C, pred_C)]) = 3
   \<and> total_images (compute_metrics [(gt_A, pred_A), (gt_B, pred_B), (gt_C, pred_C)]) = 3"
  using confusion_counts_sum_to_total [of "[(gt_A, pred_A), (gt_B, pred_B), (gt_C, pred_C)]"]
  by simp


text \<open>
  A table with positives only, and the empty table.
\<close>

theorem classification_metrics_unit_interval_witness:
  "(\<exists>p r f a.
     precision (compute_metrics [(gt_A, pred_A)]) = Fin p \<and> 0 \<le> p \<and> p \<le> 1 \<and>
     recall (compute_metrics [(gt_A, pred_A)]) = Fin r \<and> 0 \<le> r \<and> r \<le> 1 \<and>
     f1_score (compute_metrics [(gt_A, pred_A)]) = Fin f \<and> 0 \<le> f \<and> f \<le> 1 \<and>
     accuracy (compute_metrics [(gt_A, pred_A)]) = Fin a \<and> 0 \<le> a \<and> a \<le> 1)
   \<and> (\<exists>p r f a.
     precision (compute_metrics []) = Fin p \<and> 0 \<le> p \<and> p \<le> 1 \<and>
     recall (compute_metrics []) = Fin r \<and> 0 \<le> r \<and> r \<le> 1 \<and>
     f1_score (compute_metrics []) = Fin f \<and> 0 \<le> f \<and> f \<le> 1 \<and>
     accuracy (compute_metrics []) = Fin a \<and> 0 \<le> a \<and> a \<le> 1)"
  using classification_metrics_unit_interval [of "[(gt_A, pred_A)]"]
    classification_metrics_unit_interval [of "[]"]
  by (rule conjI)


text \<open>
  A table with a false alarm on image B (ground-truth area 0, predicted area 50): the
  mean is taken over A (10 percent) and C (100 percent) only. It is neither infinite nor
  the mean 110/3 that counts B as an error of 0 percent.
\<close>

theorem mape_skips_zero_ground_truth_witness:
  "mape_percent (compute_metrics [(gt_A, pred_A), (gt_B, pred_B_false_alarm), (gt_C, pred_C)])
     = Fin 55"
proof -
  have "mape_spec [(gt_A, pred_A), (gt_B, pred_B_false_alarm), (gt_C, pred_C)] = Fin 55"
    by (simp add: mape_spec_def scenario_rows)
  then show ?thesis
    using mape_skips_zero_ground_truth
      [of "[(gt_A, pred_A), (gt_B, pred_B_false_alarm), (gt_C, pred_C)]"]
    by simp
qed


text \<open>
  Predictions without ground truth.
\<close>

theorem evaluate_requires_artifacts_witness:
  "evaluate_predictions
     \<lparr>gt_image_level_all_images = None, pred_image_level = Some (Frame [pred_A]),
      gt_pred_image_level_merged_full = None\<rparr>
   = (Inl ValueError,
      \<lparr>gt_image_level_all_images = None, pred_image_level = Some (Frame [pred_A]),
       gt_pred_image_level_merged_full = None\<rparr>)"
  using evaluate_requires_artifacts
    [of "\<lparr>gt_image_level_all_images = None, pred_image_level = Some (Frame [pred_A]),
          gt_pred_image_level_merged_full = None\<rparr>"]
  by simp


text \<open>
  Ground truth for A, B and C of the test split and for an image of the train split with
  the file name of A; predictions for A and B of the test split. The written table holds A
  and B of the test split, once each.
\<close>

theorem merge_is_strict_inner_join_witness:
  "evaluate_predictions
     (scenario_out\<lparr>gt_image_level_all_images := Some (Frame [gt_A, gt_B, gt_C, gt_A_train]),
                   pred_image_level := Some (Frame [pred_A, pred_B])\<rparr>)
   = (Inr (compute_metrics [(gt_A, pred_A), (gt_B, pred_B)]),
      scenario_out\<lparr>gt_image_level_all_images := Some (Frame [gt_A, gt_B, gt_C, gt_A_train]),
                   pred_image_level := Some (Frame [pred_A, pred_B]),
                   gt_pred_image_level_merged_full := Some (Frame [(gt_A, pred_A), (gt_B, pred_B)])\<rparr>)
   \<and> count_list [(gt_A, pred_A), (gt_B, pred_B)] (gt_A_train, pred_A) = 0
   \<and> count_list [(gt_A, pred_A), (gt_B, pred_B)] (gt_A, pred_A) = 1
   \<and> fst (evaluate_predictions
            (scenario_out\<lparr>gt_image_level_all_images := Some (Frame [gt_A, gt_B]),
                          pred_image_level := Some (Frame [pred_A, pred_B])\<rparr>))
       = Inr (compute_metrics [(gt_A, pred_A), (gt_B, pred_B)])"
proof -
  have m: "merge_inner [gt_A, gt_B, gt_C, gt_A_train] [pred_A, pred_B]
             = [(gt_A, pred_A), (gt_B, pred_B)]"
    by (simp add: merge_inner_def key_def scenario_rows gt_A_train_def)
  have l: "filter (\<lambda>g. \<exists>p\<in>set [pred_A, pred_B]. split p = split g \<and> file_name p = file_name g)
             [gt_A, gt_B, gt_C, gt_A_train] = [gt_A, gt_B]"
    by (simp add: scenario_rows gt_A_train_def)
  have r: "filter (\<lambda>p. \<exists>g\<in>set [gt_A, gt_B, gt_C, gt_A_train].
                     split g = split p \<and> file_name g = file_name p)
             [pred_A, pred_B] = [pred_A, pred_B]"
    by (simp add: scenario_rows gt_A_train_def)
  have c: "count_list [gt_A, gt_B, gt_C, gt_A_train] gt_A = 1"
    "count_list [pred_A, pred_B] pred_A = 1"
    "split gt_A = split pred_A" "file_name gt_A = file_name pred_A"
    "split gt_A_train \<noteq> split pred_A"
    by (simp_all add: scenario_rows gt_A_train_def)
  from merge_is_strict_inner_join
    [where df_gt = "[gt_A, gt_B, gt_C, gt_A_train]" and df_pred = "[pred_A, pred_B]"
       and out = scenario_out]
  show ?thesis
    unfolding l r using m c by (auto simp del: count_list.simps)
qed


text \<open>
  An annotation for image 2 in a document that only has image 1.
\<close>

theorem parse_coco_split_needs_known_images_witness:
  "parse_coco_split ''train'' (Some doc_orphan_annotation) = Inl KeyError"
  using parse_coco_split_needs_known_images [of doc_orphan_annotation "''train''"]
  by (simp add: doc_orphan_annotation_def)

text \<open>
  Image B of the scenario.
\<close>

theorem negative_image_keeps_its_row_witness:
  "\<exists>rows. build_gt_for_split ''test'' (Some scenario_doc) = Inr rows
      \<and> length rows = 3
      \<and> file_name (rows ! 1) = ''B.jpg''
      \<and> num_boxes_gt (rows ! 1) = 0
      \<and> area_px_gt (rows ! 1) = 0
      \<and> area_m2_gt (rows ! 1) = 0
      \<and> has_solar_gt (rows ! 1) = False"
proof -
  have i: "1 < length (images scenario_doc)"
    by (simp add: scenario_doc_def)
  have n: "\<forall>a\<in>set (annotations scenario_doc). ann_image_id a \<noteq> img_id (images scenario_doc ! 1)"
    by (simp add: scenario_doc_def)
  have l: "length (images scenario_doc) = 3"
    and f: "img_file_name (images scenario_doc ! 1) = ''B.jpg''"
    by (simp_all add: scenario_doc_def)
  from negative_image_keeps_its_row [OF i n, of "''test''"] l f
  show ?thesis by auto
qed


text \<open>
  A true negative alone: no row passes the filter and the three values are NaN. A false
  alarm alone: the row passes, the MAE is 50 and the MAPE is NaN.
\<close>

theorem area_metrics_nan_on_empty_selection_witness:
  "(\<exists>m. fst (evaluate_predictions
              \<lparr>gt_image_level_all_images = Some (Frame [gt_B]),
               pred_image_level = Some (Frame [pred_B]),
               gt_pred_image_level_merged_full = None\<rparr>) = Inr m
        \<and> mae_px2 m = NaN \<and> rmse_px2 m = NaN \<and> mape_percent m = NaN)
   \<and> (\<exists>m. fst (evaluate_predictions
              \<lparr>gt_image_level_all_images = Some (Frame [gt_B]),
               pred_image_level = Some (Frame [pred_B_false_alarm]),
               gt_pred_image_level_merged_full = None\<rparr>) = Inr m
        \<and> mae_px2 m \<noteq> NaN \<and> mape_percent m = NaN)"
proof -
  have m1: "merge_inner [gt_B] [pred_B] = [(gt_B, pred_B)]"
    and m2: "merge_inner [gt_B] [pred_B_false_alarm] = [(gt_B, pred_B_false_alarm)]"
    by (simp_all add: merge_inner_def key_def scenario_rows)
  have z: "area_px_gt gt_B = 0" by (simp add: gt_B_def)
  show ?thesis
    using area_metrics_nan_on_empty_selection
        [of "\<lparr>gt_image_level_all_images = Some (Frame [gt_B]),
               pred_image_level = Some (Frame [pred_B]),
               gt_pred_image_level_merged_full = None\<rparr>" "[gt_B]" "[pred_B]"]
      area_metrics_nan_on_empty_selection
        [of "\<lparr>gt_image_level_all_images = Some (Frame [gt_B]),
               pred_image_level = Some (Frame [pred_B_false_alarm]),
               gt_pred_image_level_merged_full = None\<rparr>" "[gt_B]" "[pred_B_false_alarm]"]
    by (simp add: m1 m2 z scenario_mask) blast
qed

end
